theory Spec2Isabelle
  imports Complex_Main
begin

section \<open>Values, frames and the ledger file\<close>

text \<open>
  A calendar day is counted in days since 1970-01-01, so \<open>2020-01-01\<close> is day 18262.
  \<open>strftime('%Y-%m-%d')\<close> is one-to-one on days: the text it writes for day \<open>d\<close> is
  \<open>DateStr d\<close>, and comparing two such texts compares the days.

  A cell of a frame or a field of the CSV file is a \<open>val\<close>. \<open>DateStr d\<close> is text that
  \<open>pandas.to_datetime\<close> reads as a moment of day \<open>d\<close>; \<open>Str s\<close> is any other text.
  \<open>Float m e\<close> is the finite IEEE 754 double \<open>m * 2 ^ e\<close>, always in the one form in which
  the hardware stores it (53 bits of \<open>m\<close> for a normal number, \<open>e = -1074\<close> for a subnormal
  one, \<open>Float 0 0\<close> for zero, whose sign is not kept); \<open>Inf negative\<close> and \<open>NaN\<close> are the
  other doubles. In the file a double stands as the text that reads back as the same
  double. \<open>Timestamp d\<close> and \<open>NaT\<close> are the cells of a datetime column; \<open>RangeIx i\<close> is a
  position of the default index.
\<close>

type_synonym day = int

datatype val =
  Str string | DateStr day | Float int int | Inf bool | NaN | Timestamp day | NaT | RangeIx nat

datatype exn =
  ParserError | EmptyDataError | ValueError | KeyError | TypeError | AttributeError
  | FileNotFoundError | ConnectionError | JSONDecodeError

section \<open>Doubles\<close>

text \<open>
  Rounding to the nearest double, a tie to the even mantissa, as the hardware rounds a
  product and as Python rounds a decimal literal. \<open>double_of_dyadic m e\<close> is the double
  nearest to \<open>m * 2 ^ e\<close>, \<open>double_of_ratio p q\<close> the double nearest to \<open>p / q\<close>: the
  literal \<open>10.77\<close> is \<open>double_of_ratio 1077 100\<close>.
\<close>

fun bit_length :: "nat \<Rightarrow> nat" where
  "bit_length n = (if n = 0 then 0 else Suc (bit_length (n div 2)))"

declare bit_length.simps [simp del]

definition nearest :: "int \<Rightarrow> int \<Rightarrow> int \<Rightarrow> int" where
  \<comment> \<open>\<open>q + r / d\<close> to the nearest integer, for \<open>0 \<le> r < d\<close>; a tie goes to the even one\<close>
  "nearest q r d =
     (if d < 2 * r then q + 1
      else if 2 * r = d then (if even q then q else q + 1)
      else q)"

definition pack :: "bool \<Rightarrow> int \<Rightarrow> int \<Rightarrow> val" where
  \<comment> \<open>the double of mantissa \<open>q \<le> 2 ^ 53\<close> at exponent \<open>e\<close>: a carry into the 54th bit moves
      the exponent, and beyond the largest exponent the double is infinite\<close>
  "pack negative q e =
     (if q = 0 then Float 0 0
      else if q = 2 ^ 53
        then (if 970 < e then Inf negative
              else Float (if negative then - (2 ^ 52) else 2 ^ 52) (e + 1))
      else if 971 < e then Inf negative
      else Float (if negative then - q else q) e)"

definition at_exponent :: "bool \<Rightarrow> int \<Rightarrow> int \<Rightarrow> int \<Rightarrow> val" where
  \<comment> \<open>\<open>a * 2 ^ e\<close>, for \<open>0 \<le> a\<close>, written with exponent \<open>e1\<close>: exactly when \<open>e1 \<le> e\<close>, and
      rounded when bits are dropped\<close>
  "at_exponent negative a e e1 =
     (if e1 \<le> e then pack negative (a * 2 ^ nat (e - e1)) e1
      else pack negative
             (nearest (a div 2 ^ nat (e1 - e)) (a mod 2 ^ nat (e1 - e)) (2 ^ nat (e1 - e))) e1)"

definition double_of_dyadic :: "int \<Rightarrow> int \<Rightarrow> val" where
  "double_of_dyadic m e =
     at_exponent (m < 0) \<bar>m\<bar> e (max (int (bit_length (nat \<bar>m\<bar>)) + e - 53) (- 1074))"

definition scaled_quotient :: "bool \<Rightarrow> int \<Rightarrow> int \<Rightarrow> nat \<Rightarrow> val" where
  \<comment> \<open>the double nearest to \<open>n / (q * 2 ^ k)\<close>, for a quotient \<open>n div q\<close> of 55 bits or more:
      the last bit tells whether the division left a remainder\<close>
  "scaled_quotient negative n q k =
     double_of_dyadic
       ((if negative then - 1 else 1) * (2 * (n div q) + (if n mod q = 0 then 0 else 1)))
       (- int k - 1)"

definition double_of_ratio :: "int \<Rightarrow> int \<Rightarrow> val" where
  "double_of_ratio p q =
     (if q \<le> 0 then NaN
      else scaled_quotient (p < 0)
             (\<bar>p\<bar> * 2 ^ nat (int (bit_length (nat q)) + 55 - int (bit_length (nat \<bar>p\<bar>))))
             q (nat (int (bit_length (nat q)) + 55 - int (bit_length (nat \<bar>p\<bar>)))))"

definition double_of_int :: "int \<Rightarrow> val" where
  "double_of_int n = double_of_dyadic n 0"

fun fmul :: "val \<Rightarrow> val \<Rightarrow> val" where
  \<comment> \<open>the product of two doubles\<close>
  "fmul (Float m1 e1) (Float m2 e2) = double_of_dyadic (m1 * m2) (e1 + e2)"
| "fmul (Inf s) (Float m e) = (if m = 0 then NaN else Inf (s \<noteq> (m < 0)))"
| "fmul (Float m e) (Inf s) = (if m = 0 then NaN else Inf (s \<noteq> (m < 0)))"
| "fmul (Inf s) (Inf t) = Inf (s \<noteq> t)"
| "fmul v w = NaN"

section \<open>Frames\<close>

text \<open>
  A pandas DataFrame, column by column and in column order: every column is as long as
  the index.
\<close>

record dataframe =
  index_name :: "string option"
  index :: "val list"
  columns :: "(string \<times> val list) list"

text \<open>The CSV file, line by line, every line field by field.\<close>

type_synonym csv_file = "val list list"

definition nrows :: "dataframe \<Rightarrow> nat" where
  "nrows df = length (index df)"

definition empty_frame :: "dataframe \<Rightarrow> bool" where
  \<comment> \<open>\<open>df.empty\<close>: one of the axes has length 0\<close>
  "empty_frame df = (index df = [] \<or> columns df = [])"

definition getitem :: "dataframe \<Rightarrow> string \<Rightarrow> exn + val list" where
  \<comment> \<open>\<open>df[name]\<close>\<close>
  "getitem df name = (case map_of (columns df) name of None \<Rightarrow> Inl KeyError | Some c \<Rightarrow> Inr c)"

fun assign :: "string \<Rightarrow> val list \<Rightarrow> (string \<times> val list) list \<Rightarrow> (string \<times> val list) list" where
  "assign name c [] = [(name, c)]"
| "assign name c ((n, old) # rest) =
     (if n = name then (name, c) # rest else (n, old) # assign name c rest)"

definition setitem :: "dataframe \<Rightarrow> string \<Rightarrow> val list \<Rightarrow> dataframe" where
  \<comment> \<open>\<open>df[name] = c\<close>: replaces the column in place, or adds it as the last one\<close>
  "setitem df name c = df\<lparr>columns := assign name c (columns df)\<rparr>"

fun lookup_all :: "dataframe \<Rightarrow> string list \<Rightarrow> exn + (string \<times> val list) list" where
  "lookup_all df [] = Inr []"
| "lookup_all df (n # ns) =
     (case getitem df n of
        Inl e \<Rightarrow> Inl e
      | Inr c \<Rightarrow> (case lookup_all df ns of Inl e \<Rightarrow> Inl e | Inr cs \<Rightarrow> Inr ((n, c) # cs)))"

definition select_columns :: "dataframe \<Rightarrow> string list \<Rightarrow> exn + dataframe" where
  \<comment> \<open>\<open>df[[n1, n2, ...]]\<close>: KeyError when a name is not a column\<close>
  "select_columns df names =
     (case lookup_all df names of Inl e \<Rightarrow> Inl e | Inr cs \<Rightarrow> Inr (df\<lparr>columns := cs\<rparr>))"

definition is_number :: "val \<Rightarrow> bool" where
  "is_number v = (case v of Float m e \<Rightarrow> True | Inf s \<Rightarrow> True | NaN \<Rightarrow> True | _ \<Rightarrow> False)"

definition times :: "val list \<Rightarrow> val \<Rightarrow> exn + val list" where
  \<comment> \<open>\<open>column * k\<close> on a column of doubles, cell by cell; TypeError on a column that does
      not hold numbers\<close>
  "times c k = (if list_all is_number c then Inr (map (\<lambda>v. fmul v k) c) else Inl TypeError)"

definition is_datetime :: "val \<Rightarrow> bool" where
  "is_datetime v = (case v of Timestamp d \<Rightarrow> True | NaT \<Rightarrow> True | _ \<Rightarrow> False)"

definition strftime :: "val \<Rightarrow> val" where
  "strftime v = (case v of Timestamp d \<Rightarrow> DateStr d | NaT \<Rightarrow> NaN | _ \<Rightarrow> v)"

definition dt_strftime :: "val list \<Rightarrow> exn + val list" where
  \<comment> \<open>\<open>column.dt.strftime('%Y-%m-%d')\<close>: AttributeError on a column that is not datetime-like;
      a missing date gives a missing value\<close>
  "dt_strftime c = (if list_all is_datetime c then Inr (map strftime c) else Inl AttributeError)"

definition nanoseconds :: "int \<Rightarrow> int \<Rightarrow> int" where
  \<comment> \<open>the whole nanoseconds of \<open>m * 2 ^ e\<close>, the fraction dropped\<close>
  "nanoseconds m e =
     (if 0 \<le> e then m * 2 ^ nat e
      else if m < 0 then - (\<bar>m\<bar> div 2 ^ nat (- e))
      else m div 2 ^ nat (- e))"

definition of_nanoseconds :: "val \<Rightarrow> val" where
  \<comment> \<open>a number as a date: nanoseconds since 1970-01-01, as far as a timestamp reaches\<close>
  "of_nanoseconds v =
     (case v of
        Float m e \<Rightarrow>
          if - (2 ^ 63) < nanoseconds m e \<and> nanoseconds m e < 2 ^ 63
          then Timestamp (nanoseconds m e div 86400000000000)
          else NaT
      | _ \<Rightarrow> NaT)"

definition of_text :: "val \<Rightarrow> val" where
  "of_text v = (case v of DateStr d \<Rightarrow> Timestamp d | Timestamp d \<Rightarrow> Timestamp d | _ \<Rightarrow> NaT)"

definition to_datetime_coerce :: "val list \<Rightarrow> val list" where
  \<comment> \<open>\<open>pd.to_datetime(column, errors='coerce')\<close>: a column of numbers is read as nanoseconds
      since 1970-01-01; in any other column the cells with the text of a date are read,
      and every other cell is \<open>NaT\<close>\<close>
  "to_datetime_coerce c =
     (if list_all is_number c then map of_nanoseconds c else map of_text c)"

definition keep :: "bool list \<Rightarrow> 'a list \<Rightarrow> 'a list" where
  "keep flags xs = map snd (filter fst (zip flags xs))"

definition filter_rows :: "bool list \<Rightarrow> dataframe \<Rightarrow> dataframe" where
  \<comment> \<open>\<open>df[mask]\<close>\<close>
  "filter_rows flags df =
     df\<lparr>index := keep flags (index df),
        columns := map (\<lambda>(n, c). (n, keep flags c)) (columns df)\<rparr>"

definition set_columns :: "dataframe \<Rightarrow> string list \<Rightarrow> exn + dataframe" where
  \<comment> \<open>\<open>df.columns = names\<close>: ValueError (length mismatch) unless there is one name per column\<close>
  "set_columns df names =
     (if length names = length (columns df)
      then Inr (df\<lparr>columns := zip names (map snd (columns df))\<rparr>)
      else Inl ValueError)"

definition reset_index :: "dataframe \<Rightarrow> exn + dataframe" where
  \<comment> \<open>\<open>df.reset_index()\<close>: the index becomes the first column, under the name of the index
      (\<open>index\<close> when it has none); ValueError when there is a column of that name already\<close>
  "reset_index df =
     (let name = (case index_name df of None \<Rightarrow> ''index'' | Some n \<Rightarrow> n)
      in if name \<in> set (map fst (columns df)) then Inl ValueError
         else Inr \<lparr>index_name = None,
                   index = map RangeIx [0..<nrows df],
                   columns = (name, index df) # columns df\<rparr>)"

definition csv_rows :: "dataframe \<Rightarrow> csv_file" where
  "csv_rows df = map (\<lambda>i. map (\<lambda>(n, c). c ! i) (columns df)) [0..<nrows df]"

definition csv_header :: "dataframe \<Rightarrow> val list" where
  "csv_header df = map (\<lambda>(n, c). Str n) (columns df)"

definition timestamp_day :: "val \<Rightarrow> day option" where
  "timestamp_day v = (case v of Timestamp d \<Rightarrow> Some d | _ \<Rightarrow> None)"

fun max_day :: "day list \<Rightarrow> day option" where
  "max_day [] = None"
| "max_day (d # ds) = Some (fold max ds d)"

section \<open>The world the program runs in\<close>

record payload =
  message :: "string \<times> day"
  content :: csv_file
  sha :: "string option"

datatype json = JObject "(string \<times> string) list" | JArray

record response =
  status_code :: nat
  body :: "json option"

datatype msg =
  TokenMissing | AlreadyExists day | FetchingFrom day | CsvReadError | FetchError exn
  | NoNewData | DaysAdded nat | NothingToAdd | UpdateError exn
  | RetryFailed nat nat exn | MaxRetries
  | MetadataError nat | PushOk | PushError nat | PushException exn

datatype event =
  Print msg | YfHistory string day day | Sleep nat | HttpGet string | HttpPut string payload

text \<open>
  What a run finds outside the program: the token of the process environment, the date,
  what \<open>pandas.read_csv(..., on_bad_lines='skip')\<close> makes of a file, what the provider
  answers to \<open>Ticker(ticker).history(start, end)\<close>, and what the content API answers.
  \<open>Inl e\<close> is the call raising \<open>e\<close>.
\<close>

record env =
  GITHUB_TOKEN :: "string option"
  today :: day
  read_csv :: "csv_file \<Rightarrow> exn + dataframe"
  yf_history :: "string \<Rightarrow> day \<Rightarrow> day \<Rightarrow> exn + dataframe"
  http_get :: "exn + response"
  http_put :: "payload \<Rightarrow> exn + response"

text \<open>
  What the program changes: the file at \<open>CSV_FILE_PATH\<close> (\<open>None\<close> when there is none)
  and, in order, what it printed and which calls it made.
\<close>

record world =
  ledger :: "csv_file option"
  trace :: "event list"

definition emit :: "event \<Rightarrow> world \<Rightarrow> world" where
  "emit e w = w\<lparr>trace := trace w @ [e]\<rparr>"

definition GITHUB_REPO :: string where
  "GITHUB_REPO = ''Parthrk75/gold-price-data''"

definition CSV_FILE_PATH :: string where
  "CSV_FILE_PATH = ''historical_gold_spot_prices.csv''"

definition token_missing :: "env \<Rightarrow> bool" where
  \<comment> \<open>\<open>not GITHUB_TOKEN\<close>: unset or empty\<close>
  "token_missing env = (case GITHUB_TOKEN env of None \<Rightarrow> True | Some t \<Rightarrow> t = [])"

definition and_then :: "exn + 'a \<Rightarrow> ('a \<Rightarrow> exn + 'b) \<Rightarrow> exn + 'b" where
  \<comment> \<open>one statement after another inside a \<open>try\<close>: the first exception ends the block\<close>
  "and_then r f = (case r of Inl e \<Rightarrow> Inl e | Inr x \<Rightarrow> f x)"

section \<open>The program\<close>

subsection \<open>\<open>retry\<close>\<close>

text \<open>
  \<open>for i in range(retries)\<close>, counted by the attempts that are left: the attempt made
  when \<open>Suc k\<close> are left is attempt \<open>retries - k\<close>. The operation works on the world and
  either returns a value or raises.
\<close>

fun retry_loop ::
  "(world \<Rightarrow> (exn + 'a) \<times> world) \<Rightarrow> nat \<Rightarrow> nat \<Rightarrow> nat \<Rightarrow> world \<Rightarrow> 'a option \<times> world" where
  "retry_loop func retries delay 0 w = (None, emit (Print MaxRetries) w)"
| "retry_loop func retries delay (Suc k) w =
     (case func w of
        (Inr v, w1) \<Rightarrow> (Some v, w1)
      | (Inl e, w1) \<Rightarrow>
          retry_loop func retries delay k
            (emit (Sleep delay) (emit (Print (RetryFailed (retries - k) retries e)) w1)))"

definition retry ::
  "(world \<Rightarrow> (exn + 'a) \<times> world) \<Rightarrow> nat \<Rightarrow> nat \<Rightarrow> world \<Rightarrow> 'a option \<times> world" where
  "retry func retries delay w = retry_loop func retries delay retries w"

subsection \<open>\<open>fetch_data_from_yfinance\<close>\<close>

definition fetch_data_from_yfinance ::
  "env \<Rightarrow> string \<Rightarrow> day \<Rightarrow> day \<Rightarrow> world \<Rightarrow> dataframe option \<times> world" where
  "fetch_data_from_yfinance env ticker start_date end_date w =
     (let w1 = emit (YfHistory ticker start_date end_date) w
      in case yf_history env ticker start_date end_date of
           Inl e \<Rightarrow> (None, emit (Print (FetchError e)) w1)
         | Inr df \<Rightarrow> (Some df, w1))"

subsection \<open>\<open>update_csv_file\<close>\<close>

definition default_start :: day where
  \<comment> \<open>\<open>"2020-01-01"\<close>\<close>
  "default_start = 18262"

definition scaling_factor :: val where
  \<comment> \<open>the literal \<open>10.77\<close>\<close>
  "scaling_factor = double_of_ratio 1077 100"

definition schema :: "string list" where
  "schema = [''Date'', ''Open (Spot Price USD)'', ''High (Spot Price USD)'',
             ''Low (Spot Price USD)'', ''Close (Spot Price USD)'']"

definition notna :: "val \<Rightarrow> bool" where
  "notna v = (case v of NaT \<Rightarrow> False | _ \<Rightarrow> True)"

definition load_existing :: "env \<Rightarrow> csv_file \<Rightarrow> exn + dataframe" where
  \<comment> \<open>lines 47 to 52: read, name the columns, coerce the dates, drop the rows without one\<close>
  "load_existing env f =
     and_then (read_csv env f) (\<lambda>df.
     and_then (set_columns df schema) (\<lambda>df1.
     and_then (getitem df1 ''Date'') (\<lambda>c.
       let df2 = setitem df1 ''Date'' (to_datetime_coerce c)
       in and_then (getitem df2 ''Date'') (\<lambda>c2. Inr (filter_rows (map notna c2) df2)))))"

definition last_date :: "dataframe \<Rightarrow> exn + day" where
  \<comment> \<open>line 54, \<open>existing_data["Date"].max().strftime('%Y-%m-%d')\<close>: the maximum of an empty
      column is \<open>NaT\<close>, and \<open>NaT.strftime\<close> raises ValueError\<close>
  "last_date df =
     and_then (getitem df ''Date'') (\<lambda>c.
       case max_day (List.map_filter timestamp_day c) of
         None \<Rightarrow> Inl ValueError
       | Some d \<Rightarrow> Inr d)"

definition add_scaled :: "dataframe \<Rightarrow> string \<Rightarrow> string \<Rightarrow> exn + dataframe" where
  \<comment> \<open>\<open>df[dst] = df[src] * scaling_factor\<close>\<close>
  "add_scaled df src dst =
     and_then (getitem df src) (\<lambda>c.
     and_then (times c scaling_factor) (\<lambda>scaled. Inr (setitem df dst scaled)))"

definition scale_and_relabel :: "dataframe \<Rightarrow> exn + dataframe" where
  \<comment> \<open>lines 72 to 79\<close>
  "scale_and_relabel historical_data =
     and_then (select_columns historical_data [''Open'', ''High'', ''Low'', ''Close'']) (\<lambda>s0.
     and_then (add_scaled s0 ''Open'' ''Open (Spot Price USD)'') (\<lambda>s1.
     and_then (add_scaled s1 ''High'' ''High (Spot Price USD)'') (\<lambda>s2.
     and_then (add_scaled s2 ''Low'' ''Low (Spot Price USD)'') (\<lambda>s3.
     and_then (add_scaled s3 ''Close'' ''Close (Spot Price USD)'') (\<lambda>s4.
     and_then (reset_index s4) (\<lambda>s5.
     and_then (getitem s5 ''Date'') (\<lambda>d.
     and_then (dt_strftime d) (\<lambda>ds. Inr (setitem s5 ''Date'' ds)))))))))"

definition select_new :: "dataframe option \<Rightarrow> dataframe \<Rightarrow> exn + dataframe" where
  \<comment> \<open>lines 81 to 85; \<open>existing\<close> is \<open>existing_data\<close> when the file exists\<close>
  "select_new existing selected_data =
     (case existing of
        None \<Rightarrow> Inr selected_data
      | Some existing_data \<Rightarrow>
          and_then (getitem existing_data ''Date'') (\<lambda>c.
          and_then (dt_strftime c) (\<lambda>existing_dates.
          and_then (getitem selected_data ''Date'') (\<lambda>d.
            Inr (filter_rows (map (\<lambda>v. v \<notin> set existing_dates) d) selected_data)))))"

definition to_csv :: "dataframe \<Rightarrow> world \<Rightarrow> world" where
  \<comment> \<open>lines 88 to 91: \<open>mode='a', header=False\<close> on a file that exists, a new file with its
      header line otherwise; \<open>index=False\<close> both times\<close>
  "to_csv new_data w =
     (case ledger w of
        Some f \<Rightarrow> w\<lparr>ledger := Some (f @ csv_rows new_data)\<rparr>
      | None \<Rightarrow> w\<lparr>ledger := Some (csv_header new_data # csv_rows new_data)\<rparr>)"

definition process_and_store :: "dataframe option \<Rightarrow> dataframe \<Rightarrow> world \<Rightarrow> world" where
  \<comment> \<open>lines 71 to 96, the \<open>try\<close> with its \<open>except Exception\<close>\<close>
  "process_and_store existing historical_data w =
     (case and_then (scale_and_relabel historical_data) (select_new existing) of
        Inl e \<Rightarrow> emit (Print (UpdateError e)) w
      | Inr new_data \<Rightarrow>
          if \<not> empty_frame new_data
          then emit (Print (DaysAdded (nrows new_data))) (to_csv new_data w)
          else emit (Print NothingToAdd) w)"

definition fetch_and_store :: "env \<Rightarrow> day \<Rightarrow> dataframe option \<Rightarrow> world \<Rightarrow> world" where
  \<comment> \<open>lines 64 to 96\<close>
  "fetch_and_store env start_date existing w =
     (case fetch_data_from_yfinance env ''GLD'' start_date (today env) w of
        (None, w1) \<Rightarrow> emit (Print NoNewData) w1
      | (Some historical_data, w1) \<Rightarrow>
          if empty_frame historical_data then emit (Print NoNewData) w1
          else process_and_store existing historical_data w1)"

definition update_csv_file :: "env \<Rightarrow> world \<Rightarrow> exn option \<times> world" where
  \<comment> \<open>the first component is the exception that leaves the function, if one does\<close>
  "update_csv_file env w =
     (if token_missing env then (None, emit (Print TokenMissing) w)
      else case ledger w of
        None \<Rightarrow> (None, fetch_and_store env default_start None w)
      | Some f \<Rightarrow>
          (case and_then (load_existing env f) (\<lambda>existing_data.
                  and_then (last_date existing_data) (\<lambda>d. Inr (existing_data, d))) of
             Inl e \<Rightarrow>
               if e = ParserError then (None, emit (Print CsvReadError) w) else (Some e, w)
           | Inr (existing_data, d) \<Rightarrow>
               if d = today env then (None, emit (Print (AlreadyExists (today env))) w)
               else (None, fetch_and_store env (d + 1) (Some existing_data)
                             (emit (Print (FetchingFrom (d + 1))) w))))"

subsection \<open>\<open>push_to_github\<close>\<close>

definition url :: string where
  "url = ''https://api.github.com/repos/'' @ GITHUB_REPO @ ''/contents/'' @ CSV_FILE_PATH"

definition report_status :: "(nat \<Rightarrow> msg) \<Rightarrow> response \<Rightarrow> world \<Rightarrow> world" where
  \<comment> \<open>\<open>print(f"...: {response.status_code}, {response.json()}")\<close>: \<open>json()\<close> raises on a body
      that is not JSON, and the \<open>except\<close> of the function prints that instead\<close>
  "report_status m r w =
     (case body r of
        None \<Rightarrow> emit (Print (PushException JSONDecodeError)) w
      | Some j \<Rightarrow> emit (Print (m (status_code r))) w)"

definition put_file :: "env \<Rightarrow> csv_file \<Rightarrow> string option \<Rightarrow> world \<Rightarrow> world" where
  \<comment> \<open>lines 118 to 129; the content stands for its base64 text\<close>
  "put_file env file_content token w =
     (let p = \<lparr>message = (''Update gold price data: '', today env),
                content = file_content, sha = token\<rparr>;
          w1 = emit (HttpPut url p) w
      in case http_put env p of
           Inl e \<Rightarrow> emit (Print (PushException e)) w1
         | Inr r \<Rightarrow>
             if status_code r = 200 \<or> status_code r = 201 then emit (Print PushOk) w1
             else report_status PushError r w1)"

definition push_to_github :: "env \<Rightarrow> world \<Rightarrow> exn option \<times> world" where
  "push_to_github env w =
     (if token_missing env then (None, emit (Print TokenMissing) w)
      else case ledger w of
        None \<Rightarrow> (None, emit (Print (PushException FileNotFoundError)) w)
      | Some file_content \<Rightarrow>
          (let w1 = emit (HttpGet url) w
           in case http_get env of
                Inl e \<Rightarrow> (None, emit (Print (PushException e)) w1)
              | Inr r \<Rightarrow>
                  if status_code r = 200
                  then (case body r of
                          None \<Rightarrow> (None, emit (Print (PushException JSONDecodeError)) w1)
                        | Some JArray \<Rightarrow> (None, emit (Print (PushException AttributeError)) w1)
                        | Some (JObject content_data) \<Rightarrow>
                            (None, put_file env file_content (map_of content_data ''sha'') w1))
                  else (None, report_status MetadataError r w1)))"

subsection \<open>The scheduled job of \<open>main\<close>\<close>

definition scheduled_job :: "env \<Rightarrow> world \<Rightarrow> exn option \<times> world" where
  \<comment> \<open>\<open>lambda: (update_csv_file(), push_to_github())\<close>: the tuple is built left to right, and
      an exception in the first call leaves the job before the second\<close>
  "scheduled_job env w =
     (case update_csv_file env w of
        (Some e, w1) \<Rightarrow> (Some e, w1)
      | (None, w1) \<Rightarrow> push_to_github env w1)"

section \<open>Sample environments\<close>

text \<open>
  What \<open>pandas.read_csv(path, on_bad_lines='skip')\<close> makes of a file of lines. Blank lines
  are passed over and the first line is the header. The first line after the header may be
  longer than the header, and then its leading fields are the index; every later line
  with more fields than that is skipped (\<open>on_bad_lines='skip'\<close>), and a line with fewer is
  filled with \<open>NaN\<close>. A file without a line raises EmptyDataError. Of an index of several
  levels the frame keeps the first; the program never looks at the index of this frame.
\<close>

definition column_name :: "val \<Rightarrow> string" where
  "column_name v = (case v of Str s \<Rightarrow> s | _ \<Rightarrow> [])"

definition fill :: "nat \<Rightarrow> val list \<Rightarrow> val list" where
  "fill width r = r @ replicate (width - length r) NaN"

definition table :: "val list \<Rightarrow> nat \<Rightarrow> val list list \<Rightarrow> dataframe" where
  "table header lead rows =
     \<lparr>index_name = None,
      index = (if lead = 0 then map RangeIx [0..<length rows] else map (\<lambda>r. r ! 0) rows),
      columns = map (\<lambda>j. (column_name (header ! j), map (\<lambda>r. r ! (lead + j)) rows))
                    [0..<length header]\<rparr>"

definition frame_of_lines :: "val list \<Rightarrow> nat \<Rightarrow> val list list \<Rightarrow> dataframe" where
  "frame_of_lines header width lines =
     table header (width - length header)
       (map (fill width) (filter (\<lambda>r. length r \<le> width) lines))"

definition pandas_read_csv :: "csv_file \<Rightarrow> exn + dataframe" where
  "pandas_read_csv f =
     (case filter (\<lambda>r. r \<noteq> []) f of
        [] \<Rightarrow> Inl EmptyDataError
      | header # lines \<Rightarrow>
          Inr (frame_of_lines header
                 (case lines of
                    [] \<Rightarrow> length header
                  | first # rest \<Rightarrow> max (length header) (length first))
                 lines))"

text \<open>
  The frame the provider returns for daily bars \<open>(day, open, high, low, close)\<close> with whole
  prices: a datetime index named \<open>Date\<close> and, besides the four price columns, the volume.
\<close>

definition history_frame :: "(day \<times> int \<times> int \<times> int \<times> int) list \<Rightarrow> dataframe" where
  "history_frame bars =
     \<lparr>index_name = Some ''Date'',
      index = map (\<lambda>(d, po, ph, pl, pc). Timestamp d) bars,
      columns = [(''Open'', map (\<lambda>(d, po, ph, pl, pc). double_of_int po) bars),
                 (''High'', map (\<lambda>(d, po, ph, pl, pc). double_of_int ph) bars),
                 (''Low'', map (\<lambda>(d, po, ph, pl, pc). double_of_int pl) bars),
                 (''Close'', map (\<lambda>(d, po, ph, pl, pc). double_of_int pc) bars),
                 (''Volume'', map (\<lambda>(d, po, ph, pl, pc). Float 0 0) bars)]\<rparr>"

definition provider_of ::
  "(day \<times> int \<times> int \<times> int \<times> int) list \<Rightarrow> string \<Rightarrow> day \<Rightarrow> day \<Rightarrow> exn + dataframe" where
  \<comment> \<open>a provider that holds these bars and answers with those of the window \<open>[start, end)\<close>\<close>
  "provider_of bars ticker start_date end_date =
     Inr (history_frame (filter (\<lambda>(d, po, ph, pl, pc). start_date \<le> d \<and> d < end_date) bars))"

definition ok_response :: response where
  "ok_response = \<lparr>status_code = 200, body = Some (JObject [(''sha'', ''3f2a'')])\<rparr>"

definition not_found :: response where
  "not_found = \<lparr>status_code = 404, body = Some (JObject [(''message'', ''Not Found'')])\<rparr>"

definition sample_env :: "day \<Rightarrow> (string \<Rightarrow> day \<Rightarrow> day \<Rightarrow> exn + dataframe) \<Rightarrow> env" where
  "sample_env t provider =
     \<lparr>GITHUB_TOKEN = Some ''ghp'', today = t, read_csv = pandas_read_csv,
      yf_history = provider, http_get = Inr ok_response, http_put = (\<lambda>p. Inr ok_response)\<rparr>"

definition bar_0102 :: "day \<times> int \<times> int \<times> int \<times> int" where
  \<comment> \<open>the bar of 2024-01-02\<close>
  "bar_0102 = (19724, 190, 192, 189, 191)"

definition row_0102 :: "val list" where
  \<comment> \<open>the line that the program writes for the bar of 2024-01-02; the four products are the
      doubles that print as 2046.3, 2067.84, 2035.53 and 2057.0699999999997\<close>
  "row_0102 =
     [DateStr 19724, double_of_int 190, double_of_int 192, double_of_int 189, double_of_int 191,
      double_of_ratio 20463 10, double_of_ratio 206784 100, double_of_ratio 203553 100,
      double_of_ratio 20570699999999997 10000000000000]"

definition no_ledger :: world where
  "no_ledger = \<lparr>ledger = None, trace = []\<rparr>"

definition ledger_0101 :: csv_file where
  \<comment> \<open>a ledger in the five columns of the schema with the one row of 2024-01-01\<close>
  "ledger_0101 =
     [map Str schema,
      [DateStr 19723, double_of_int 2000, double_of_int 2010, double_of_int 1990,
       double_of_int 2005]]"

definition with_ledger :: "csv_file \<Rightarrow> world" where
  "with_ledger f = \<lparr>ledger = Some f, trace = []\<rparr>"

definition after_first_run :: world where
  \<comment> \<open>the world the job leaves on 2024-01-03 when it starts without a ledger and the
      provider holds the bar of 2024-01-02\<close>
  "after_first_run = snd (scheduled_job (sample_env 19725 (provider_of [bar_0102])) no_ledger)"

definition after_append :: world where
  \<comment> \<open>the ledger that \<open>update_csv_file\<close> leaves on 2024-01-03 when it starts from the ledger
      of 2024-01-01 and the provider holds the bar of 2024-01-02, at the start of a later
      run\<close>
  "after_append =
     \<lparr>ledger = ledger (snd (update_csv_file (sample_env 19725 (provider_of [bar_0102]))
                             (with_ledger ledger_0101))),
      trace = []\<rparr>"

section \<open>What the properties speak about\<close>

fun fetch_calls :: "event list \<Rightarrow> (string \<times> day \<times> day) list" where
  "fetch_calls [] = []"
| "fetch_calls (YfHistory ticker start_date end_date # evs) =
     (ticker, start_date, end_date) # fetch_calls evs"
| "fetch_calls (ev # evs) = fetch_calls evs"

definition is_sleep :: "event \<Rightarrow> bool" where
  "is_sleep ev = (case ev of Sleep n \<Rightarrow> True | _ \<Rightarrow> False)"

definition is_put :: "event \<Rightarrow> bool" where
  "is_put ev = (case ev of HttpPut u p \<Rightarrow> True | _ \<Rightarrow> False)"

definition is_http :: "event \<Rightarrow> bool" where
  "is_http ev = (case ev of HttpGet u \<Rightarrow> True | HttpPut u p \<Rightarrow> True | _ \<Rightarrow> False)"

definition column_days :: "val list \<Rightarrow> day list" where
  \<comment> \<open>the days that \<open>to_datetime\<close> reads in a column, in order\<close>
  "column_days c = List.map_filter timestamp_day (to_datetime_coerce c)"

definition frame_dates :: "dataframe \<Rightarrow> day list" where
  \<comment> \<open>the parseable dates of the first column, which line 48 names \<open>Date\<close>\<close>
  "frame_dates df = (case columns df of [] \<Rightarrow> [] | (n, c) # rest \<Rightarrow> column_days c)"

definition ledger_dates :: "csv_file \<Rightarrow> day list" where
  \<comment> \<open>the parseable dates of the ledger: those of the first fields of its lines after the
      header, in storage order, whatever the number of fields of a line\<close>
  "ledger_dates f = column_days (concat (map (take 1) (tl (filter (\<lambda>r. r \<noteq> []) f))))"

definition stored_dates :: "world \<Rightarrow> day list" where
  "stored_dates w = (case ledger w of None \<Rightarrow> [] | Some f \<Rightarrow> ledger_dates f)"

definition schema_file :: "csv_file \<Rightarrow> bool" where
  \<comment> \<open>a file with a header in which every line has five fields\<close>
  "schema_file f = (case f of [] \<Rightarrow> False | header # rows \<Rightarrow> list_all (\<lambda>r. length r = 5) f)"

lemma bit_length_simps:
  "bit_length (numeral n) = Suc (bit_length (numeral n div 2))"
  "bit_length 0 = 0"
  "bit_length 1 = 1"
  "bit_length (Suc 0) = 1"
  by (simp_all add: bit_length.simps [of "numeral n"] bit_length.simps [of 0]
      bit_length.simps [of 1] bit_length.simps [of "Suc 0"])

lemma is_number_simps:
  "is_number (Float m e)" "is_number (Inf s)" "is_number NaN"
  "\<not> is_number (Str t)" "\<not> is_number (DateStr d)" "\<not> is_number (Timestamp d)"
  "\<not> is_number NaT" "\<not> is_number (RangeIx i)"
  by (simp_all add: is_number_def)

lemmas double_defs = double_of_ratio_def scaled_quotient_def double_of_dyadic_def
  at_exponent_def pack_def nearest_def bit_length_simps

lemmas frame_defs = nrows_def empty_frame_def getitem_def setitem_def select_columns_def
  is_number_simps times_def is_datetime_def strftime_def dt_strftime_def
  to_datetime_coerce_def of_text_def keep_def filter_rows_def set_columns_def reset_index_def
  csv_rows_def csv_header_def timestamp_day_def and_then_def notna_def List.map_filter_def

lemmas update_defs = update_csv_file_def token_missing_def fetch_and_store_def
  fetch_data_from_yfinance_def process_and_store_def scale_and_relabel_def add_scaled_def
  select_new_def to_csv_def load_existing_def last_date_def emit_def schema_def
  default_start_def

lemmas push_defs = push_to_github_def put_file_def report_status_def scheduled_job_def

lemmas sample_defs = sample_env_def provider_of_def history_frame_def bar_0102_def
  no_ledger_def with_ledger_def ledger_0101_def pandas_read_csv_def frame_of_lines_def
  table_def fill_def column_name_def after_first_run_def after_append_def row_0102_def
  ok_response_def not_found_def

lemmas spec_defs = is_sleep_def is_put_def is_http_def column_days_def frame_dates_def
  ledger_dates_def stored_dates_def schema_file_def

section \<open>Lemmas on doubles\<close>

lemma is_number_pack: "is_number (pack negative q e)"
  by (simp add: pack_def is_number_simps)

lemma is_number_double_of_dyadic: "is_number (double_of_dyadic m e)"
  by (simp add: double_of_dyadic_def at_exponent_def is_number_pack)

lemma is_number_double_of_int: "is_number (double_of_int n)"
  by (simp add: double_of_int_def is_number_double_of_dyadic)

lemma is_number_double_of_ratio: "is_number (double_of_ratio p q)"
  by (simp add: double_of_ratio_def scaled_quotient_def is_number_double_of_dyadic is_number_simps)

text \<open>
  The doubles of the literals \<open>10.77\<close> and \<open>0.1\<close>, as \<open>float.hex\<close> prints them
  (\<open>0x1.58a3d70a3d70ap+3\<close> and \<open>0x1.999999999999ap-4\<close>).
\<close>

lemma scaling_factor_value: "scaling_factor = Float 6062970998347530 (- 49)"
  by (simp add: scaling_factor_def double_defs)

lemma double_of_a_tenth: "double_of_ratio 1 10 = Float 7205759403792794 (- 56)"
  by (simp add: double_defs)

text \<open>
  The four products of the bar of 2024-01-02. Three of them are the doubles of the decimal
  products; \<open>191.0 * 10.77\<close> is not the double of \<open>2057.07\<close> but the one below it.
\<close>

lemma scaled_190: "fmul (double_of_int 190) scaling_factor = double_of_ratio 20463 10"
  by (simp add: scaling_factor_value double_of_int_def double_defs)

lemma scaled_192: "fmul (double_of_int 192) scaling_factor = double_of_ratio 206784 100"
  by (simp add: scaling_factor_value double_of_int_def double_defs)

lemma scaled_189: "fmul (double_of_int 189) scaling_factor = double_of_ratio 203553 100"
  by (simp add: scaling_factor_value double_of_int_def double_defs)

lemma scaled_191:
  "fmul (double_of_int 191) scaling_factor = double_of_ratio 20570699999999997 10000000000000"
  by (simp add: scaling_factor_value double_of_int_def double_defs)

lemma scaled_191_is_rounded:
  "fmul (double_of_int 191) scaling_factor \<noteq> double_of_ratio 205707 100"
  by (simp add: scaling_factor_value double_of_int_def double_defs)

lemmas scaled_0102 = scaled_190 scaled_192 scaled_189 scaled_191
  is_number_double_of_int is_number_double_of_ratio

section \<open>Lemmas on frames and on the steps of the update\<close>

lemma max_day_Max:
  assumes "ds \<noteq> []"
  shows "max_day ds = Some (Max (set ds))"
proof (cases ds)
  case Nil
  then show ?thesis using assms by simp
next
  case (Cons d rest)
  then show ?thesis using Max.set_eq_fold [of d rest] by simp
qed

lemma keep_map_self: "keep (map P xs) xs = filter P xs"
  by (induction xs) (simp_all add: keep_def)

lemma map_filter_timestamps: "List.map_filter timestamp_day (map Timestamp ds) = ds"
  by (induction ds) (simp_all add: List.map_filter_def timestamp_day_def)

lemma fetch_calls_append: "fetch_calls (xs @ ys) = fetch_calls xs @ fetch_calls ys"
  by (induction xs rule: fetch_calls.induct) simp_all

lemma five_columns:
  assumes "length (cs :: 'a list) = 5"
  obtains a b c d e where "cs = [a, b, c, d, e]"
  using assms by (auto simp: length_Suc_conv eval_nat_numeral)

lemma and_then_Inr: "and_then r g = Inr y \<longleftrightarrow> (\<exists>x. r = Inr x \<and> g x = Inr y)"
  by (cases r) (simp_all add: and_then_def)

lemma datetime_cells: "list_all is_datetime (to_datetime_coerce c)"
  by (simp add: to_datetime_coerce_def of_nanoseconds_def of_text_def is_datetime_def
      list_all_iff split: val.splits)

lemma filter_notna_datetimes:
  assumes "list_all is_datetime xs"
  shows "filter notna xs = map Timestamp (List.map_filter timestamp_day xs)"
  using assms
  by (induction xs)
     (auto simp: is_datetime_def notna_def timestamp_day_def List.map_filter_def
           split: val.splits)

lemma load_existing_dates:
  assumes "read_csv env f = Inr df" and "length (columns df) = 5"
  shows "\<exists>ex. load_existing env f = Inr ex
           \<and> getitem ex ''Date'' = Inr (map Timestamp (frame_dates df))"
proof -
  from assms(2) obtain a b c d e where cs: "columns df = [a, b, c, d, e]"
    by (rule five_columns)
  obtain n col where a: "a = (n, col)" by (cases a)
  have "filter notna (to_datetime_coerce col) = map Timestamp (column_days col)"
    using filter_notna_datetimes [OF datetime_cells] by (simp add: column_days_def)
  then show ?thesis
    using assms(1) cs a
    by (simp add: load_existing_def and_then_def set_columns_def schema_def getitem_def
        setitem_def filter_rows_def keep_map_self frame_dates_def)
qed

text \<open>
  On a file in which every line has five fields, \<open>pandas_read_csv\<close> returns the lines after
  the header as the rows of five columns: the dates of the frame are the dates of the
  ledger.
\<close>

lemma first_fields:
  assumes "list_all (\<lambda>r. length r = 5) rows"
  shows "concat (map (take 1) rows) = map (\<lambda>r. r ! 0) rows"
  using assms
proof (induction rows)
  case Nil
  then show ?case by simp
next
  case (Cons r rows)
  then have "length r = 5" by simp
  then obtain a rest where "r = a # rest" by (cases r) auto
  with Cons show ?case by simp
qed

lemma pandas_reads_schema_file:
  assumes "schema_file f"
  shows "\<exists>df. pandas_read_csv f = Inr df \<and> length (columns df) = 5
           \<and> frame_dates df = ledger_dates f"
proof -
  from assms obtain header rows where f: "f = header # rows"
    and h: "length header = 5" and rs: "list_all (\<lambda>r. length r = 5) rows"
    by (cases f) (auto simp: schema_file_def)
  have nonblank: "filter (\<lambda>r. r \<noteq> []) f = f"
    using f h rs by (auto simp: list_all_iff filter_id_conv)
  have width: "(case rows of [] \<Rightarrow> length header | first # rest \<Rightarrow> max (length header) (length first)) = 5"
    using h rs by (cases rows) auto
  have kept: "map (fill 5) (filter (\<lambda>r. length r \<le> 5) rows) = rows"
  proof -
    have "filter (\<lambda>r. length r \<le> 5) rows = rows"
      using rs by (auto simp: list_all_iff filter_id_conv)
    moreover have "map (fill 5) rows = rows"
      using rs by (auto simp: list_all_iff fill_def map_idI)
    ultimately show ?thesis by simp
  qed
  have five: "[0..<5] = [0, 1, 2, 3, 4]"
    by (simp add: upt_rec)
  have nb: "filter (\<lambda>r. r \<noteq> []) (header # rows) = header # rows"
    using nonblank by (simp only: f)
  have "pandas_read_csv f = Inr (frame_of_lines header 5 rows)"
    by (simp only: pandas_read_csv_def f nb list.case width)
  moreover have "frame_of_lines header 5 rows = table header 0 rows"
    by (simp add: frame_of_lines_def h kept)
  ultimately have read: "pandas_read_csv f = Inr (table header 0 rows)"
    by simp
  have "frame_dates (table header 0 rows) = column_days (map (\<lambda>r. r ! 0) rows)"
    by (simp add: table_def h five frame_dates_def)
  moreover have "ledger_dates f = column_days (map (\<lambda>r. r ! 0) rows)"
    by (simp only: ledger_dates_def f nb list.sel first_fields [OF rs])
  moreover have "length (columns (table header 0 rows)) = 5"
    by (simp add: table_def h)
  ultimately show ?thesis
    using read by simp
qed

lemma ledger_emit: "ledger (emit ev w) = ledger w"
  by (simp add: emit_def)

lemma trace_emit: "trace (emit ev w) = trace w @ [ev]"
  by (simp add: emit_def)

lemma trace_to_csv: "trace (to_csv new_data w) = trace w"
  by (simp add: to_csv_def split: option.splits)

lemma process_and_store_trace:
  "\<exists>m. trace (process_and_store existing h w) = trace w @ [Print m]"
  by (simp add: process_and_store_def trace_emit trace_to_csv split: sum.splits)

lemma fetch_and_store_trace:
  "\<exists>rest. trace (fetch_and_store env s existing w) = trace w @ YfHistory ''GLD'' s (today env) # map Print rest"
proof -
  obtain r w1 where fd: "fetch_data_from_yfinance env ''GLD'' s (today env) w = (r, w1)"
    by (cases "fetch_data_from_yfinance env ''GLD'' s (today env) w")
  then have w1: "\<exists>ms. trace w1 = trace w @ YfHistory ''GLD'' s (today env) # map Print ms"
  proof (cases "yf_history env ''GLD'' s (today env)")
    case (Inl e)
    with fd have "trace w1 = trace w @ YfHistory ''GLD'' s (today env) # map Print [FetchError e]"
      by (auto simp: fetch_data_from_yfinance_def trace_emit Let_def)
    then show ?thesis by blast
  next
    case (Inr df)
    with fd have "trace w1 = trace w @ YfHistory ''GLD'' s (today env) # map Print []"
      by (auto simp: fetch_data_from_yfinance_def trace_emit Let_def)
    then show ?thesis by blast
  qed
  then obtain ms where ms: "trace w1 = trace w @ YfHistory ''GLD'' s (today env) # map Print ms" ..
  have "\<exists>m. trace (fetch_and_store env s existing w) = trace w1 @ [Print m]"
    using fd process_and_store_trace [of existing _ w1]
    by (auto simp: fetch_and_store_def trace_emit split: option.splits)
  then obtain m where "trace (fetch_and_store env s existing w) = trace w1 @ [Print m]" ..
  with ms have "trace (fetch_and_store env s existing w)
      = trace w @ YfHistory ''GLD'' s (today env) # map Print (ms @ [m])"
    by simp
  then show ?thesis by blast
qed

lemma fetch_calls_prints: "fetch_calls (map Print ms) = []"
  by (induction ms) simp_all

lemma fetch_and_store_calls:
  "fetch_calls (trace (fetch_and_store env s existing w)) = fetch_calls (trace w) @ [(''GLD'', s, today env)]"
proof -
  obtain rest where "trace (fetch_and_store env s existing w)
      = trace w @ YfHistory ''GLD'' s (today env) # map Print rest"
    using fetch_and_store_trace by blast
  then show ?thesis by (simp add: fetch_calls_append fetch_calls_prints)
qed

lemma last_date_of_timestamps:
  assumes "getitem ex ''Date'' = Inr (map Timestamp ds)" and "ds \<noteq> []"
  shows "last_date ex = Inr (Max (set ds))"
  using assms by (simp add: last_date_def and_then_def map_filter_timestamps max_day_Max)

text \<open>
  Where the window starts: at the default origin without a ledger, and on the day after the
  latest date of the frame that \<open>read_csv\<close> returns, when that frame has five columns.
\<close>

lemma fetch_starts_after_last_read_date:
  assumes "\<not> token_missing env"
  shows "(ledger w = None \<longrightarrow>
            fetch_calls (trace (snd (update_csv_file env w)))
              = fetch_calls (trace w) @ [(''GLD'', default_start, today env)])
       \<and> (ledger w = Some f \<and> read_csv env f = Inr df \<and> length (columns df) = 5
            \<and> frame_dates df \<noteq> [] \<and> Max (set (frame_dates df)) \<noteq> today env \<longrightarrow>
            fetch_calls (trace (snd (update_csv_file env w)))
              = fetch_calls (trace w) @ [(''GLD'', Max (set (frame_dates df)) + 1, today env)])"
proof (intro conjI impI)
  assume "ledger w = None"
  then show "fetch_calls (trace (snd (update_csv_file env w)))
      = fetch_calls (trace w) @ [(''GLD'', default_start, today env)]"
    using assms by (simp add: update_csv_file_def fetch_and_store_calls)
next
  assume h: "ledger w = Some f \<and> read_csv env f = Inr df \<and> length (columns df) = 5
      \<and> frame_dates df \<noteq> [] \<and> Max (set (frame_dates df)) \<noteq> today env"
  then obtain ex where ex: "load_existing env f = Inr ex"
    and dates: "getitem ex ''Date'' = Inr (map Timestamp (frame_dates df))"
    using load_existing_dates by blast
  have "last_date ex = Inr (Max (set (frame_dates df)))"
    using dates h by (simp add: last_date_of_timestamps)
  then show "fetch_calls (trace (snd (update_csv_file env w)))
      = fetch_calls (trace w) @ [(''GLD'', Max (set (frame_dates df)) + 1, today env)]"
    using assms h ex
    by (simp add: update_csv_file_def and_then_def fetch_and_store_calls trace_emit
        fetch_calls_append)
qed

lemma push_to_github_returns: "fst (push_to_github env w) = None"
  by (simp add: push_to_github_def Let_def split: option.splits sum.splits json.splits)

lemma ledger_put_file: "ledger (put_file env file_content token w) = ledger w"
  by (simp add: put_file_def report_status_def ledger_emit Let_def split: sum.splits option.splits)

lemma push_to_github_ledger: "ledger (snd (push_to_github env w)) = ledger w"
  by (simp add: push_to_github_def report_status_def ledger_emit ledger_put_file Let_def
      split: option.splits sum.splits json.splits)

lemma put_file_trace:
  "\<exists>m. trace (put_file env file_content token w)
        = trace w @ [HttpPut url \<lparr>message = (''Update gold price data: '', today env),
                                  content = file_content, sha = token\<rparr>, Print m]"
  by (simp add: put_file_def report_status_def trace_emit Let_def split: sum.splits option.splits)

lemma push_to_github_answers:
  assumes "\<not> token_missing env" and "ledger w = Some f" and "http_get env = Inr r"
  shows "(status_code r \<noteq> 200 \<longrightarrow>
            trace (snd (push_to_github env w))
              = trace w @ [HttpGet url,
                           Print (case body r of
                                    None \<Rightarrow> PushException JSONDecodeError
                                  | Some j \<Rightarrow> MetadataError (status_code r))])
       \<and> (status_code r = 200 \<and> body r = Some (JObject content_data) \<longrightarrow>
            (\<exists>m. trace (snd (push_to_github env w))
                    = trace w @ [HttpGet url,
                                 HttpPut url \<lparr>message = (''Update gold price data: '', today env),
                                              content = f, sha = map_of content_data ''sha''\<rparr>,
                                 Print m]))
       \<and> (status_code r = 200 \<and> body r = Some JArray \<longrightarrow>
            trace (snd (push_to_github env w))
              = trace w @ [HttpGet url, Print (PushException AttributeError)])
       \<and> (status_code r = 200 \<and> body r = None \<longrightarrow>
            trace (snd (push_to_github env w))
              = trace w @ [HttpGet url, Print (PushException JSONDecodeError)])"
proof (intro conjI impI)
  assume "status_code r \<noteq> 200"
  then show "trace (snd (push_to_github env w))
      = trace w @ [HttpGet url,
                   Print (case body r of
                            None \<Rightarrow> PushException JSONDecodeError
                          | Some j \<Rightarrow> MetadataError (status_code r))]"
    using assms
    by (simp add: push_to_github_def report_status_def trace_emit Let_def split: option.splits)
next
  assume h: "status_code r = 200 \<and> body r = Some (JObject content_data)"
  obtain m where "trace (put_file env f (map_of content_data ''sha'') (emit (HttpGet url) w))
      = trace (emit (HttpGet url) w)
        @ [HttpPut url \<lparr>message = (''Update gold price data: '', today env),
                        content = f, sha = map_of content_data ''sha''\<rparr>, Print m]"
    using put_file_trace by blast
  then have "trace (snd (push_to_github env w))
      = trace w @ [HttpGet url,
                   HttpPut url \<lparr>message = (''Update gold price data: '', today env),
                                content = f, sha = map_of content_data ''sha''\<rparr>,
                   Print m]"
    using assms h by (simp add: push_to_github_def trace_emit Let_def)
  then show "\<exists>m. trace (snd (push_to_github env w))
      = trace w @ [HttpGet url,
                   HttpPut url \<lparr>message = (''Update gold price data: '', today env),
                                content = f, sha = map_of content_data ''sha''\<rparr>,
                   Print m]"
    by blast
next
  assume "status_code r = 200 \<and> body r = Some JArray"
  then show "trace (snd (push_to_github env w))
      = trace w @ [HttpGet url, Print (PushException AttributeError)]"
    using assms by (simp add: push_to_github_def trace_emit Let_def)
next
  assume "status_code r = 200 \<and> body r = None"
  then show "trace (snd (push_to_github env w))
      = trace w @ [HttpGet url, Print (PushException JSONDecodeError)]"
    using assms by (simp add: push_to_github_def trace_emit Let_def)
qed

lemma push_to_github_get:
  assumes "\<not> token_missing env" and "ledger w = Some f"
  shows "\<exists>rest. trace (snd (push_to_github env w)) = trace w @ HttpGet url # rest"
proof (cases "http_get env")
  case (Inl e)
  then show ?thesis
    using assms by (simp add: push_to_github_def trace_emit Let_def)
next
  case (Inr r)
  show ?thesis
  proof (cases "status_code r = 200")
    case False
    then show ?thesis
      using assms Inr
      by (simp add: push_to_github_def report_status_def trace_emit Let_def split: option.splits)
  next
    case True
    then show ?thesis
      using assms Inr put_file_trace [of env f _ "emit (HttpGet url) w"]
      by (auto simp: push_to_github_def trace_emit Let_def split: option.splits json.splits)
  qed
qed

lemma ledger_fetch_data: "ledger (snd (fetch_data_from_yfinance env ticker s e w)) = ledger w"
  by (simp add: fetch_data_from_yfinance_def ledger_emit Let_def split: sum.splits)

lemma ledger_to_csv:
  "ledger (to_csv new_data w) =
     (case ledger w of
        Some f \<Rightarrow> Some (f @ csv_rows new_data)
      | None \<Rightarrow> Some (csv_header new_data # csv_rows new_data))"
  by (simp add: to_csv_def split: option.splits)

lemma process_and_store_ledger:
  "ledger (process_and_store existing h w) =
     (case and_then (scale_and_relabel h) (select_new existing) of
        Inl e \<Rightarrow> ledger w
      | Inr new_data \<Rightarrow> if empty_frame new_data then ledger w else ledger (to_csv new_data w))"
  by (simp add: process_and_store_def ledger_emit split: sum.splits)

lemma process_and_store_prefix:
  assumes "ledger w = Some f"
  shows "\<exists>new. ledger (process_and_store existing h w) = Some (f @ new)"
  using assms by (simp add: process_and_store_ledger ledger_to_csv split: sum.splits)

lemma fetch_and_store_prefix:
  assumes "ledger w = Some f"
  shows "\<exists>new. ledger (fetch_and_store env s existing w) = Some (f @ new)"
proof -
  obtain r w1 where fd: "fetch_data_from_yfinance env ''GLD'' s (today env) w = (r, w1)"
    by (cases "fetch_data_from_yfinance env ''GLD'' s (today env) w")
  then have "ledger w1 = Some f"
    using ledger_fetch_data [of env "''GLD''" s "today env" w] assms by simp
  then show ?thesis
    using fd process_and_store_prefix [of w1 f existing]
    by (auto simp: fetch_and_store_def ledger_emit split: option.splits)
qed

lemma process_and_store_error:
  "ledger (process_and_store existing h w) = ledger w
   \<or> (\<exists>n. trace (process_and_store existing h w) = trace w @ [Print (DaysAdded n)])"
  by (simp add: process_and_store_def ledger_emit trace_emit trace_to_csv split: sum.splits)

lemma fetch_and_store_error:
  "\<exists>evs. trace (fetch_and_store env s existing w) = trace w @ evs
         \<and> (ledger (fetch_and_store env s existing w) = ledger w
            \<or> (\<forall>e. Print (UpdateError e) \<notin> set evs))"
proof (cases "yf_history env ''GLD'' s (today env)")
  case (Inl e)
  then show ?thesis
    by (simp add: fetch_and_store_def fetch_data_from_yfinance_def ledger_emit trace_emit Let_def)
next
  case (Inr h)
  let ?w1 = "emit (YfHistory ''GLD'' s (today env)) w"
  show ?thesis
  proof (cases "empty_frame h")
    case True
    then show ?thesis
      using Inr
      by (simp add: fetch_and_store_def fetch_data_from_yfinance_def ledger_emit trace_emit Let_def)
  next
    case False
    then have eq: "fetch_and_store env s existing w = process_and_store existing h ?w1"
      using Inr by (simp add: fetch_and_store_def fetch_data_from_yfinance_def Let_def)
    from process_and_store_error [of existing h ?w1]
    show ?thesis
    proof
      assume "ledger (process_and_store existing h ?w1) = ledger ?w1"
      moreover obtain m where "trace (process_and_store existing h ?w1) = trace ?w1 @ [Print m]"
        using process_and_store_trace by blast
      ultimately show ?thesis
        by (simp add: eq ledger_emit trace_emit)
    next
      assume "\<exists>n. trace (process_and_store existing h ?w1) = trace ?w1 @ [Print (DaysAdded n)]"
      then show ?thesis
        by (auto simp: eq trace_emit)
    qed
  qed
qed

text \<open>
  What \<open>retry\<close> does with an operation that raises every time: three attempts, a sleep of
  five seconds after each, and \<open>None\<close>. No run of \<open>update_csv_file\<close> or \<open>push_to_github\<close>
  goes through it.
\<close>

lemma retry_gives_up:
  "retry (\<lambda>w. (Inl e, w)) 3 5 w =
     (None, w\<lparr>trace := trace w @
        [Print (RetryFailed 1 3 e), Sleep 5, Print (RetryFailed 2 3 e), Sleep 5,
         Print (RetryFailed 3 3 e), Sleep 5, Print MaxRetries]\<rparr>)"
  by (simp add: retry_def eval_nat_numeral emit_def)

lemma retry_returns_first_result:
  "retry (\<lambda>w. (Inr v, w)) 3 5 w = (Some v, w)"
  by (simp add: retry_def eval_nat_numeral)

lemma update_never_sleeps:
  "filter is_sleep (trace (snd (update_csv_file env w))) = filter is_sleep (trace w)"
proof -
  have fs: "filter is_sleep (trace (fetch_and_store env s existing w0)) = filter is_sleep (trace w0)"
    for s existing w0
  proof -
    obtain rest where "trace (fetch_and_store env s existing w0)
        = trace w0 @ YfHistory ''GLD'' s (today env) # map Print rest"
      using fetch_and_store_trace by blast
    then show ?thesis
      by (simp add: is_sleep_def filter_empty_conv)
  qed
  show ?thesis
    by (simp add: update_csv_file_def trace_emit fs is_sleep_def split: option.splits sum.splits)
qed

section \<open>The claims\<close>

text \<open>
  C1, which the code does not meet. The claim: every write of \<open>update_csv_file\<close> has exactly the five
  columns of the schema. Lines 74 to 78 add the date and the four scaled columns to the
  frame and never drop \<open>Open\<close>, \<open>High\<close>, \<open>Low\<close>, \<open>Close\<close>, so the frame written has nine
  columns. Here the first run, on 2024-01-03 with the bar of 2024-01-02: the file created
  has a header of nine names and a row of nine fields.
\<close>

theorem first_run_writes_nine_columns:
  "ledger (snd (update_csv_file (sample_env 19725 (provider_of [bar_0102])) no_ledger)) =
     Some [[Str ''Date'', Str ''Open'', Str ''High'', Str ''Low'', Str ''Close'',
            Str ''Open (Spot Price USD)'', Str ''High (Spot Price USD)'',
            Str ''Low (Spot Price USD)'', Str ''Close (Spot Price USD)''],
           [DateStr 19724, double_of_int 190, double_of_int 192, double_of_int 189,
            double_of_int 191, double_of_ratio 20463 10, double_of_ratio 206784 100,
            double_of_ratio 203553 100, double_of_ratio 20570699999999997 10000000000000]]"
  by (simp add: frame_defs update_defs sample_defs scaled_0102)

text \<open>
  C3, which the code does not meet. The claim: each of the four price values persisted for a row is
  the provider's value times 10.77, a provider open of 190.0 being persisted as 2046.3.
  The row appended to a ledger in the five columns of the schema has nine fields: the
  four fields after the date, which stand under the four price columns of the header,
  hold the provider's values as they came (190 for the open), and the products follow in
  the fields six to nine. The products are those of doubles: the last one prints as
  2057.0699999999997.
\<close>

theorem appended_row_keeps_raw_prices:
  "ledger (snd (update_csv_file (sample_env 19725 (provider_of [bar_0102]))
                  (with_ledger ledger_0101))) =
     Some [map Str schema,
           [DateStr 19723, double_of_int 2000, double_of_int 2010, double_of_int 1990,
            double_of_int 2005],
           [DateStr 19724, double_of_int 190, double_of_int 192, double_of_int 189,
            double_of_int 191, double_of_ratio 20463 10, double_of_ratio 206784 100,
            double_of_ratio 203553 100, double_of_ratio 20570699999999997 10000000000000]]"
  by (simp add: frame_defs update_defs sample_defs scaled_0102)

text \<open>
  C6, which the code does not meet. The claim: a failing fetch is attempted again, up to three
  times, five seconds apart. \<open>retry\<close> is defined and never called: when the provider
  raises, the run asks it once, does not sleep, and reports that there is no new data.
\<close>

theorem failed_fetch_is_not_retried:
  "update_csv_file (sample_env 19725 (\<lambda>ticker start_date end_date. Inl ConnectionError))
       no_ledger =
     (None, \<lparr>ledger = None,
             trace = [YfHistory ''GLD'' 18262 19725, Print (FetchError ConnectionError),
                      Print NoNewData]\<rparr>)"
  by (simp add: frame_defs update_defs sample_defs)

text \<open>
  C9, which the code does not meet. The claim: \<open>update_csv_file\<close> and \<open>push_to_github\<close> never let an
  exception reach their caller, also on a ledger that does not have five columns. The
  ledger that the first run created has nine: on the next day line 48 raises ValueError,
  the handler of line 60 catches ParserError only, and the exception leaves
  \<open>update_csv_file\<close> and the scheduled job.
\<close>

theorem second_run_raises:
  "fst (update_csv_file (sample_env 19726 (provider_of [bar_0102])) after_first_run)
     = Some ValueError
   \<and> fst (scheduled_job (sample_env 19726 (provider_of [bar_0102])) after_first_run)
     = Some ValueError"
  by (simp add: frame_defs update_defs sample_defs push_defs scaled_0102)

text \<open>
  C2, which the code does not meet. The claim: on a ledger whose latest parseable date is
  \<open>D\<close>, before today, the window of the fetch starts at \<open>D + 1\<close>. The line that the program
  appended for 2024-01-02 has nine fields under a header of five, and \<open>read_csv\<close> with
  \<open>on_bad_lines='skip'\<close> passes it over: on 2024-01-04 the latest date that line 54 finds
  is 2024-01-01, and the window starts at 2024-01-02, the latest date of the ledger itself.
\<close>

theorem window_restarts_at_last_date:
  "stored_dates after_append = [19723, 19724]
   \<and> fetch_calls (trace (snd (update_csv_file (sample_env 19726 (provider_of [bar_0102]))
                                after_append)))
     = [(''GLD'', 19724, 19726)]"
  by (simp add: frame_defs update_defs sample_defs scaled_0102 spec_defs)

text \<open>
  C4, which the code does not meet. The claim: a run on a ledger with strictly ascending
  dates leaves them strictly ascending and without a date twice. The ledger after the
  append of 2024-01-02 has the dates 2024-01-01 and 2024-01-02; \<open>read_csv\<close> passes the
  nine-field line over, so the existing dates of line 82 lack 2024-01-02, the provider is
  asked for it again, line 83 keeps it, and the run of 2024-01-04 appends it a second time.
\<close>

theorem skipped_line_is_appended_again:
  "stored_dates after_append = [19723, 19724]
   \<and> stored_dates (snd (update_csv_file (sample_env 19726 (provider_of [bar_0102]))
                          after_append))
     = [19723, 19724, 19724]
   \<and> \<not> distinct (stored_dates (snd (update_csv_file (sample_env 19726 (provider_of [bar_0102]))
                                      after_append)))"
  by (simp add: frame_defs update_defs sample_defs scaled_0102 spec_defs)

text \<open>
  C8, which the code does not meet. The claim: a second cycle on the same day, with no new
  data from the provider, leaves the ledger as the first cycle left it. On 2024-01-03 the
  first cycle appends the line of 2024-01-02; the second cycle, with the same answer from
  the provider, does not find that line when it reads the ledger and appends it again.
\<close>

theorem second_cycle_writes_again:
  "ledger (snd (scheduled_job (sample_env 19725 (provider_of [bar_0102]))
                  (with_ledger ledger_0101)))
     = Some (ledger_0101 @ [row_0102])
   \<and> ledger (snd (scheduled_job (sample_env 19725 (provider_of [bar_0102]))
                    (snd (scheduled_job (sample_env 19725 (provider_of [bar_0102]))
                            (with_ledger ledger_0101)))))
     = Some (ledger_0101 @ [row_0102, row_0102])"
  by (simp add: frame_defs update_defs sample_defs push_defs scaled_0102)

text \<open>
  C5 as stated, which does not hold. The claim: when the latest date of the ledger is today, the whole cycle
  is skipped, and no publish is attempted in that tick. The job calls \<open>push_to_github\<close>
  after every \<open>update_csv_file\<close> that returns: on 2024-01-01, with a ledger that ends on
  2024-01-01, it sends the GET and the PUT.
\<close>

theorem publish_attempted_when_up_to_date:
  "Max (set (stored_dates (with_ledger ledger_0101)))
     = today (sample_env 19723 (provider_of [bar_0102]))
   \<and> filter is_http (trace (snd (scheduled_job (sample_env 19723 (provider_of [bar_0102]))
                                   (with_ledger ledger_0101))))
     = [HttpGet url,
        HttpPut url \<lparr>message = (''Update gold price data: '', 19723),
                     content = ledger_0101, sha = Some ''3f2a''\<rparr>]"
  by (simp add: frame_defs update_defs sample_defs push_defs spec_defs)

text \<open>
  C5 as amended. Let the token be set, let every line of the ledger have the five fields
  of the schema, read as \<open>pandas.read_csv\<close> reads them, and let the latest parseable date of
  the ledger be today. Then \<open>update_csv_file\<close> returns without a call to the provider and
  without a write: it only prints that the data exists. The job goes on to
  \<open>push_to_github\<close>, which sends its GET and, when the GET is answered with status 200 and
  a JSON object, its PUT of the ledger.
\<close>

theorem up_to_date_skips_update_only:
  assumes "\<not> token_missing env" and "read_csv env = pandas_read_csv"
    and "ledger w = Some f" and "schema_file f"
    and "ledger_dates f \<noteq> []" and "Max (set (ledger_dates f)) = today env"
  shows "update_csv_file env w = (None, emit (Print (AlreadyExists (today env))) w)
       \<and> (\<exists>rest. trace (snd (scheduled_job env w))
             = trace w @ Print (AlreadyExists (today env)) # HttpGet url # rest)
       \<and> (\<forall>r content_data.
             http_get env = Inr r \<and> status_code r = 200
               \<and> body r = Some (JObject content_data) \<longrightarrow>
             (\<exists>m. trace (snd (scheduled_job env w))
                     = trace w @ [Print (AlreadyExists (today env)), HttpGet url,
                                  HttpPut url \<lparr>message = (''Update gold price data: '', today env),
                                               content = f, sha = map_of content_data ''sha''\<rparr>,
                                  Print m]))"
proof -
  let ?w1 = "emit (Print (AlreadyExists (today env))) w"
  from pandas_reads_schema_file [OF assms(4)] obtain df
    where df: "read_csv env f = Inr df" "length (columns df) = 5"
      and fd: "frame_dates df = ledger_dates f"
    using assms(2) by auto
  obtain ex where ex: "load_existing env f = Inr ex"
    and dates: "getitem ex ''Date'' = Inr (map Timestamp (ledger_dates f))"
    using load_existing_dates [OF df] fd by auto
  have "last_date ex = Inr (today env)"
    using last_date_of_timestamps [OF dates assms(5)] assms(6) by simp
  then have upd: "update_csv_file env w = (None, ?w1)"
    using assms(1,3) ex by (simp add: update_csv_file_def and_then_def)
  have job: "scheduled_job env w = push_to_github env ?w1"
    by (simp add: scheduled_job_def upd)
  have l1: "ledger ?w1 = Some f" and t1: "trace ?w1 = trace w @ [Print (AlreadyExists (today env))]"
    using assms(3) by (simp_all add: ledger_emit trace_emit)
  from push_to_github_get [OF assms(1) l1]
  obtain rest where "trace (snd (push_to_github env ?w1)) = trace ?w1 @ HttpGet url # rest" ..
  then have get: "\<exists>rest. trace (snd (scheduled_job env w))
      = trace w @ Print (AlreadyExists (today env)) # HttpGet url # rest"
    by (simp add: job t1)
  have put: "\<exists>m. trace (snd (scheduled_job env w))
      = trace w @ [Print (AlreadyExists (today env)), HttpGet url,
                   HttpPut url \<lparr>message = (''Update gold price data: '', today env),
                                content = f, sha = map_of content_data ''sha''\<rparr>,
                   Print m]"
    if "http_get env = Inr r \<and> status_code r = 200 \<and> body r = Some (JObject content_data)"
    for r content_data
  proof -
    from that have g: "http_get env = Inr r" by simp
    from push_to_github_answers [OF assms(1) l1 g, of content_data] that
    obtain m where "trace (snd (push_to_github env ?w1))
        = trace ?w1 @ [HttpGet url,
                       HttpPut url \<lparr>message = (''Update gold price data: '', today env),
                                    content = f, sha = map_of content_data ''sha''\<rparr>,
                       Print m]"
      by blast
    then show ?thesis
      by (simp add: job t1)
  qed
  from upd get put show ?thesis
    by blast
qed

theorem up_to_date_skips_update_only_witness:
  "update_csv_file (sample_env 19723 (provider_of [bar_0102])) (with_ledger ledger_0101)
     = (None, \<lparr>ledger = Some ledger_0101, trace = [Print (AlreadyExists 19723)]\<rparr>)
   \<and> (\<exists>m. trace (snd (scheduled_job (sample_env 19723 (provider_of [bar_0102]))
                         (with_ledger ledger_0101)))
         = [Print (AlreadyExists 19723), HttpGet url,
            HttpPut url \<lparr>message = (''Update gold price data: '', 19723),
                         content = ledger_0101, sha = Some ''3f2a''\<rparr>,
            Print m])"
proof -
  let ?env = "sample_env 19723 (provider_of [bar_0102])"
  let ?w = "with_ledger ledger_0101"
  have tok: "\<not> token_missing ?env"
    by (simp add: token_missing_def sample_env_def)
  have rd: "read_csv ?env = pandas_read_csv"
    by (simp add: sample_env_def)
  have l: "ledger ?w = Some ledger_0101"
    by (simp add: with_ledger_def)
  have sf: "schema_file ledger_0101"
    by (simp add: schema_file_def ledger_0101_def schema_def)
  have ld: "ledger_dates ledger_0101 \<noteq> []" "Max (set (ledger_dates ledger_0101)) = today ?env"
    by (simp_all add: spec_defs frame_defs sample_defs schema_def)
  have g: "http_get ?env = Inr ok_response \<and> status_code ok_response = 200
      \<and> body ok_response = Some (JObject [(''sha'', ''3f2a'')])"
    by (simp add: sample_env_def ok_response_def)
  from up_to_date_skips_update_only [OF tok rd l sf ld] g
  show ?thesis
    by (simp add: sample_env_def with_ledger_def emit_def)
qed

text \<open>
  C7 as stated, which does not hold. The claim: \<open>push_to_github\<close> creates the remote file when it does not
  exist yet. The content API answers the GET for a file that does not exist with 404, and
  line 112 ends the publish on every status other than 200: no PUT is sent.
\<close>

theorem missing_remote_file_is_not_created:
  "trace (snd (push_to_github ((sample_env 19725 (provider_of [bar_0102]))\<lparr>http_get := Inr not_found\<rparr>)
                 (with_ledger ledger_0101)))
     = [HttpGet url, Print (MetadataError 404)]"
  by (simp add: sample_defs push_defs emit_def token_missing_def)

text \<open>
  C7 as amended. With the token set and the ledger file in place, \<open>push_to_github\<close>
  replaces a remote file that exists and never creates one. When the GET is answered with
  a status other than 200, it prints the status (or, for a body that is not JSON, the
  exception) and sends no PUT. When the GET is answered with 200 and a JSON object, it
  sends one PUT with the whole local file and the \<open>sha\<close> of that answer (none when the
  answer has no \<open>sha\<close>) and prints the outcome. When the GET is answered with 200 and a
  body that is no JSON object, it prints the exception and sends no PUT.
\<close>

theorem push_replaces_existing_file_only:
  assumes "\<not> token_missing env" and "ledger w = Some f" and "http_get env = Inr r"
  shows "(status_code r \<noteq> 200 \<longrightarrow>
            trace (snd (push_to_github env w))
              = trace w @ [HttpGet url,
                           Print (case body r of
                                    None \<Rightarrow> PushException JSONDecodeError
                                  | Some j \<Rightarrow> MetadataError (status_code r))])
       \<and> (\<forall>content_data. status_code r = 200 \<and> body r = Some (JObject content_data) \<longrightarrow>
            (\<exists>m. trace (snd (push_to_github env w))
                    = trace w @ [HttpGet url,
                                 HttpPut url \<lparr>message = (''Update gold price data: '', today env),
                                              content = f, sha = map_of content_data ''sha''\<rparr>,
                                 Print m]))
       \<and> (status_code r = 200 \<and> body r = Some JArray \<longrightarrow>
            trace (snd (push_to_github env w))
              = trace w @ [HttpGet url, Print (PushException AttributeError)])
       \<and> (status_code r = 200 \<and> body r = None \<longrightarrow>
            trace (snd (push_to_github env w))
              = trace w @ [HttpGet url, Print (PushException JSONDecodeError)])"
  using push_to_github_answers [OF assms] by blast

theorem push_replaces_existing_file_only_witness:
  "trace (snd (push_to_github
       ((sample_env 19725 (provider_of [bar_0102]))\<lparr>http_get := Inr not_found\<rparr>)
       (with_ledger ledger_0101)))
     = [HttpGet url, Print (MetadataError 404)]
   \<and> (\<exists>m. trace (snd (push_to_github (sample_env 19725 (provider_of [bar_0102]))
                         (with_ledger ledger_0101)))
         = [HttpGet url,
            HttpPut url \<lparr>message = (''Update gold price data: '', 19725),
                         content = ledger_0101, sha = Some ''3f2a''\<rparr>,
            Print m])
   \<and> trace (snd (push_to_github
       ((sample_env 19725 (provider_of [bar_0102]))
          \<lparr>http_get := Inr \<lparr>status_code = 200, body = Some JArray\<rparr>\<rparr>)
       (with_ledger ledger_0101)))
     = [HttpGet url, Print (PushException AttributeError)]"
proof -
  let ?env = "sample_env 19725 (provider_of [bar_0102])"
  let ?missing = "?env\<lparr>http_get := Inr not_found\<rparr>"
  let ?listing = "?env\<lparr>http_get := Inr \<lparr>status_code = 200, body = Some JArray\<rparr>\<rparr>"
  let ?w = "with_ledger ledger_0101"
  have tok: "\<not> token_missing ?env" "\<not> token_missing ?missing" "\<not> token_missing ?listing"
    by (simp_all add: token_missing_def sample_env_def)
  have l: "ledger ?w = Some ledger_0101" and t: "trace ?w = []"
    by (simp_all add: with_ledger_def)
  have g: "http_get ?env = Inr ok_response" "http_get ?missing = Inr not_found"
    "http_get ?listing = Inr \<lparr>status_code = 200, body = Some JArray\<rparr>"
    by (simp_all add: sample_env_def)
  from push_replaces_existing_file_only [OF tok(2) l g(2)]
       push_replaces_existing_file_only [OF tok(1) l g(1)]
       push_replaces_existing_file_only [OF tok(3) l g(3)]
  show ?thesis
    by (simp add: t not_found_def ok_response_def sample_env_def)
qed

text \<open>
  C10. \<open>update_csv_file\<close> leaves what the ledger file holds in place: after the run the
  file is the file of before followed by the lines written in the run (none when nothing
  is written). And when the run ends in the handler of line 95, printing
  \<open>Error updating CSV file\<close> for an exception raised while the columns were processed,
  the ledger is the one of before the run.
\<close>

theorem update_only_appends:
  "(ledger w = Some f \<longrightarrow> (\<exists>new. ledger (snd (update_csv_file env w)) = Some (f @ new)))
   \<and> (Print (UpdateError e) \<in> set (drop (length (trace w)) (trace (snd (update_csv_file env w))))
        \<longrightarrow> ledger (snd (update_csv_file env w)) = ledger w)"
proof (intro conjI impI)
  assume f: "ledger w = Some f"
  have "ledger (emit ev w) = Some f" for ev
    using f by (simp add: ledger_emit)
  then show "\<exists>new. ledger (snd (update_csv_file env w)) = Some (f @ new)"
    using f fetch_and_store_prefix
    by (auto simp: update_csv_file_def ledger_emit split: sum.splits)
next
  assume err: "Print (UpdateError e)
      \<in> set (drop (length (trace w)) (trace (snd (update_csv_file env w))))"
  have step: "ledger (fetch_and_store env s existing w0) = ledger w"
    if "ledger w0 = ledger w" and "trace w0 = trace w @ pre"
      and "Print (UpdateError e) \<notin> set pre"
      and "Print (UpdateError e)
             \<in> set (drop (length (trace w)) (trace (fetch_and_store env s existing w0)))"
    for s existing w0 pre
  proof -
    obtain evs where evs: "trace (fetch_and_store env s existing w0) = trace w0 @ evs"
      and alt: "ledger (fetch_and_store env s existing w0) = ledger w0
                \<or> (\<forall>e. Print (UpdateError e) \<notin> set evs)"
      using fetch_and_store_error by blast
    from that(2,4) evs have "Print (UpdateError e) \<in> set (pre @ evs)"
      by simp
    with that(3) have "Print (UpdateError e) \<in> set evs"
      by simp
    with alt that(1) show ?thesis
      by auto
  qed
  show "ledger (snd (update_csv_file env w)) = ledger w"
  proof (cases "token_missing env")
    case True
    then show ?thesis by (simp add: update_csv_file_def ledger_emit)
  next
    case tok: False
    show ?thesis
    proof (cases "ledger w")
      case None
      then have u: "snd (update_csv_file env w) = fetch_and_store env default_start None w"
        using tok by (simp add: update_csv_file_def)
      show ?thesis
        using step [of w "[]" default_start None] err by (simp add: u)
    next
      case (Some f)
      show ?thesis
      proof (cases "and_then (load_existing env f)
          (\<lambda>existing_data. and_then (last_date existing_data) (\<lambda>d. Inr (existing_data, d)))")
        case (Inl x)
        then show ?thesis
          using tok Some by (simp add: update_csv_file_def ledger_emit)
      next
        case (Inr p)
        obtain ex d where p: "p = (ex, d)" by (cases p)
        show ?thesis
        proof (cases "d = today env")
          case True
          then show ?thesis
            using tok Some Inr p by (simp add: update_csv_file_def ledger_emit)
        next
          case False
          then have u: "snd (update_csv_file env w)
              = fetch_and_store env (d + 1) (Some ex) (emit (Print (FetchingFrom (d + 1))) w)"
            using tok Some Inr p by (simp add: update_csv_file_def)
          show ?thesis
            using step [of "emit (Print (FetchingFrom (d + 1))) w" "[Print (FetchingFrom (d + 1))]"
                "d + 1" "Some ex"] err
            by (simp add: u ledger_emit trace_emit)
        qed
      qed
    qed
  qed
qed

theorem update_only_appends_witness:
  "(\<exists>new. ledger (snd (update_csv_file (sample_env 19725 (provider_of [bar_0102]))
                         (with_ledger ledger_0101))) = Some (ledger_0101 @ new))
   \<and> Print (UpdateError KeyError)
       \<in> set (trace (snd (update_csv_file
            (sample_env 19725 (\<lambda>ticker start_date end_date.
               Inr ((history_frame [bar_0102])\<lparr>columns := [(''Open'', [double_of_int 190])]\<rparr>)))
            (with_ledger ledger_0101))))
   \<and> ledger (snd (update_csv_file
         (sample_env 19725 (\<lambda>ticker start_date end_date.
            Inr ((history_frame [bar_0102])\<lparr>columns := [(''Open'', [double_of_int 190])]\<rparr>)))
         (with_ledger ledger_0101))) = Some ledger_0101"
proof -
  let ?env = "sample_env 19725 (provider_of [bar_0102])"
  let ?bad = "sample_env 19725 (\<lambda>ticker start_date end_date.
      Inr ((history_frame [bar_0102])\<lparr>columns := [(''Open'', [double_of_int 190])]\<rparr>))"
  let ?w = "with_ledger ledger_0101"
  have l: "ledger ?w = Some ledger_0101" and t: "trace ?w = []"
    by (simp_all add: with_ledger_def)
  have tr: "trace (snd (update_csv_file ?bad ?w))
      = [Print (FetchingFrom 19724), YfHistory ''GLD'' 19724 19725, Print (UpdateError KeyError)]"
    by (simp add: frame_defs update_defs sample_defs)
  from update_only_appends [where w = ?w and f = ledger_0101 and env = ?env]
       update_only_appends [where w = ?w and e = KeyError and env = ?bad]
  show ?thesis
    using l by (simp add: t tr)
qed

end
